theory Spec2Isabelle
  imports Main
begin

section \<open>The relay of main.py\<close>

text \<open>
  The service forwards a prompt to an external agent runtime and relays the runtime's
  message stream, either as a sequence of server-sent events
  (\<^verbatim>\<open>stream_agent_progress\<close>, POST /stream) or as one JSON body
  (\<^verbatim>\<open>query_agent\<close>, POST /query).

  Conventions of the embedding.
  \<^item> A Python \<^verbatim>\<open>str\<close> is a \<open>string\<close> holding its UTF-8 bytes; the relay only copies,
    concatenates and joins strings, which commutes with the encoding.
  \<^item> A JSON-like Python value is a \<open>'f json\<close>; a \<^verbatim>\<open>dict\<close> is \<open>JObj\<close> of an association
    list in insertion order. The type \<open>'f\<close> of Python floats is a parameter: the relay
    passes \<^verbatim>\<open>total_cost_usd\<close> on and computes nothing with it.
  \<^item> The classes of \<^verbatim>\<open>claude_agent_sdk\<close> are not part of the repository. Messages and
    content blocks are datatypes with the fields the relay reads; the constructor
    \<^verbatim>\<open>ClaudeAgentOptions\<close> and the generator \<^verbatim>\<open>query\<close> are parameters of the two
    entry points.
  \<^item> An exception is the string \<^verbatim>\<open>str(e)\<close>, the only thing the relay reads of it. Only
    subclasses of \<^verbatim>\<open>Exception\<close> are modelled: the handlers are \<^verbatim>\<open>except Exception\<close>,
    and cancellation or interpreter exit are outside the model.
  \<^item> The agent's message stream is finite: the generator yields messages and then either
    ends or raises. Nothing is consumed after a raise, so a raise is a leaf.
  \<^item> The consumer of the event generator reads it to its end.
\<close>

subsection \<open>JSON values and the SDK's types\<close>

datatype 'f json =
    JNull
  | JBool bool
  | JInt int
  | JFloat 'f
  | JStr string
  | JList "'f json list"
  | JObj "(string \<times> 'f json) list"

text \<open>
  \<^verbatim>\<open>TextBlock(text)\<close>, \<^verbatim>\<open>ToolUseBlock(name, input)\<close>; \<^verbatim>\<open>ToolResultBlock\<close> is imported by
  main.py and never tested for; \<open>OtherBlock\<close> is a block of any other class.
\<close>

datatype 'f content_block =
    TextBlock string
  | ToolUseBlock string "'f json"
  | ToolResultBlock
  | OtherBlock

text \<open>
  \<^verbatim>\<open>AssistantMessage(content)\<close>;
  \<^verbatim>\<open>ResultMessage(duration_ms, total_cost_usd, num_turns, session_id)\<close>, where the cost is
  a float or \<^verbatim>\<open>None\<close>; \<open>OtherMessage\<close> is a message of any other class.
\<close>

datatype 'f message =
    AssistantMessage "'f content_block list"
  | ResultMessage int "'f option" int string
  | OtherMessage

datatype 'f agent_stream =
    StreamEnd
  | Yield "'f message" "'f agent_stream"
  | Raise string

subsection \<open>The models of main.py\<close>

record query_request =
  prompt :: string
  max_turns :: int

record 'f query_response =
  status :: string
  response :: string
  usage :: "'f json"
  agent_info :: "'f json"

record 'f stream_event =
  event_type :: string
  data :: "'f json"
  timestamp :: string

record http_exception =
  status_code :: int
  detail :: string

record agent_config =
  name :: string
  role :: string
  tools :: "string list"
  system_prompt :: string
  permission_mode :: string

definition AGENT_CONFIG :: agent_config where
  "AGENT_CONFIG = \<lparr>
     name = ''Currency Conversion Expert'',
     role = ''Financial Data Analyst specializing in currency exchange rates'',
     tools = [''WebSearch'', ''WebFetch'', ''Read'', ''Write'', ''Bash''],
     system_prompt =
     ''You are a Currency Conversion Expert Agent with deep expertise in financial data analysis and currency markets. Your primary role is to provide accurate, up-to-date currency conversion rates for major world currencies.\<newline>'' @
     ''\<newline>'' @
     ''Your responsibilities:\<newline>'' @
     ''1. Research and retrieve current exchange rates for major currencies (USD, EUR, GBP, JPY, CHF, CAD, AUD, CNY, INR, etc.)\<newline>'' @
     ''2. Use reliable financial data sources and APIs to ensure accuracy\<newline>'' @
     ''3. Compile the data into a well-organized Excel file with clear headers and formatting\<newline>'' @
     ''4. Include timestamp and source information for transparency\<newline>'' @
     ''5. Calculate cross-currency rates when needed\<newline>'' @
     ''6. Present data in a professional, analyst-style format\<newline>'' @
     ''\<newline>'' @
     ''Your personality is analytical, detail-oriented, and precise. You prioritize accuracy and data integrity above all else. When presenting currency data:\<newline>'' @
     ''- Use standard currency codes (ISO 4217)\<newline>'' @
     ''- Display rates with appropriate decimal precision\<newline>'' @
     ''- Include the base currency and quote currency clearly\<newline>'' @
     ''- Add metadata like update time and data source\<newline>'' @
     ''\<newline>'' @
     ''Workflow:\<newline>'' @
     ''1. Search for current currency exchange rates from reliable sources\<newline>'' @
     ''2. Fetch and validate the data\<newline>'' @
     ''3. Process and structure the data appropriately\<newline>'' @
     ''4. Create an Excel file (.xlsx or .csv) with proper formatting\<newline>'' @
     ''5. Include multiple currency pairs in a clear matrix or table format\<newline>'' @
     ''\<newline>'' @
     ''Always ensure data freshness and cite your sources. If real-time data is unavailable, clearly indicate the timestamp of the rates provided.'',
     permission_mode = ''acceptEdits''
   \<rparr>"

subsection \<open>Events\<close>

text \<open>
  \<^verbatim>\<open>create_event\<close> builds the dictionary \<^verbatim>\<open>{"type", "data", "timestamp"}\<close> and returns the
  line \<^verbatim>\<open>data: <json.dumps(event)>\n\n\<close>. The model stops at the dictionary, whose values are
  JSON values by their type; the reading of the wall clock is the argument \<open>now\<close>.
\<close>

definition create_event :: "string \<Rightarrow> string \<Rightarrow> 'f json \<Rightarrow> 'f stream_event" where
  "create_event now etype edata = \<lparr>event_type = etype, data = edata, timestamp = now\<rparr>"

text \<open>
  The message texts of main.py start with non-ASCII characters; they are written here by
  their UTF-8 bytes, as the file holds them.
\<close>

definition glyph_starting :: string where
  "glyph_starting = map char_of [0xEF, 0xA3, 0xBF, 0xC3, 0xBC, 0xC2, 0xA7, 0xC3, 0xB1 :: nat]"

definition glyph_processing :: string where
  "glyph_processing = map char_of [0xEF, 0xA3, 0xBF, 0xC3, 0xBC, 0xC3, 0xAC, 0xC3, 0xA3 :: nat]"

definition glyph_thinking :: string where
  "glyph_thinking = map char_of [0xEF, 0xA3, 0xBF, 0xC3, 0xBC, 0xC3, 0xAD, 0xE2, 0x89, 0xA0 :: nat]"

definition glyph_using :: string where
  "glyph_using = map char_of [0xEF, 0xA3, 0xBF, 0xC3, 0xBC, 0xC3, 0xAE, 0xC3, 0x9F :: nat]"

definition glyph_completed :: string where
  "glyph_completed = map char_of [0xE2, 0x80, 0x9A, 0xC3, 0xBA, 0xC3, 0x96 :: nat]"

definition glyph_error :: string where
  "glyph_error = map char_of [0xE2, 0x80, 0x9A, 0xC3, 0xB9, 0xC3, 0xA5 :: nat]"

text \<open>An event before it is stamped: its type and its data.\<close>

type_synonym 'f emission = "string \<times> 'f json"

definition initializing_event :: "'f emission" where
  "initializing_event = (''progress'', JObj [
     (''message'', JStr (glyph_starting @ '' Starting Currency Conversion Expert...'')),
     (''agent'', JStr (name AGENT_CONFIG)),
     (''status'', JStr ''initializing'')])"

definition processing_event :: "'f emission" where
  "processing_event = (''progress'', JObj [
     (''message'', JStr (glyph_processing @ '' Processing your request...'')),
     (''status'', JStr ''processing'')])"

definition response_event :: "string \<Rightarrow> 'f emission" where
  "response_event block_text = (''response'', JObj [
     (''content'', JStr block_text),
     (''partial'', JBool True),
     (''message'', JStr (glyph_thinking @ '' Agent thinking...''))])"

definition tool_use_event :: "string \<Rightarrow> 'f json \<Rightarrow> 'f emission" where
  "tool_use_event block_name block_input = (''tool_use'', JObj [
     (''tool'', JStr block_name),
     (''input'', block_input),
     (''message'', JStr (glyph_using @ '' Using '' @ block_name @ '' tool...'')),
     (''status'', JStr ''executing'')])"

definition agent_info_dict :: "'f json" where
  "agent_info_dict = JObj [
     (''name'', JStr (name AGENT_CONFIG)),
     (''role'', JStr (role AGENT_CONFIG))]"

definition complete_event :: "string \<Rightarrow> 'f json \<Rightarrow> 'f emission" where
  "complete_event full usage_dict = (''complete'', JObj [
     (''response'', JStr full),
     (''usage'', usage_dict),
     (''status'', JStr ''completed''),
     (''message'', JStr (glyph_completed @ '' Task completed successfully!'')),
     (''agent_info'', agent_info_dict)])"

definition error_event :: "string \<Rightarrow> 'f emission" where
  "error_event e = (''error'', JObj [
     (''error'', JStr e),
     (''message'', JStr (glyph_error @ '' Error: '' @ e)),
     (''status'', JStr ''failed'')])"

subsection \<open>The state of a run\<close>

text \<open>\<^verbatim>\<open>"\n".join(response_parts)\<close>\<close>

fun join_newline :: "string list \<Rightarrow> string" where
  "join_newline [] = []"
| "join_newline [p] = p"
| "join_newline (p # q # ps) = p @ ''\<newline>'' @ join_newline (q # ps)"

text \<open>
  \<^verbatim>\<open>"\n".join(response_parts) if response_parts else "No response received"\<close>: a list
  is false exactly when it is empty.
\<close>

definition full_response :: "string list \<Rightarrow> string" where
  "full_response response_parts =
     (if response_parts \<noteq> [] then join_newline response_parts else ''No response received'')"

text \<open>The dictionary stored in \<^verbatim>\<open>usage_info\<close> at a \<^verbatim>\<open>ResultMessage\<close>.\<close>

definition usage_dict :: "int \<Rightarrow> 'f option \<Rightarrow> int \<Rightarrow> string \<Rightarrow> 'f json" where
  "usage_dict duration cost turns session = JObj [
     (''duration_ms'', JInt duration),
     (''total_cost_usd'', (case cost of None \<Rightarrow> JNull | Some c \<Rightarrow> JFloat c)),
     (''num_turns'', JInt turns),
     (''session_id'', JStr session)]"

text \<open>
  \<^verbatim>\<open>usage_info or {}\<close>: \<^verbatim>\<open>None\<close> and the empty dictionary are false, every other
  dictionary is true.
\<close>

definition or_empty :: "'f json option \<Rightarrow> 'f json" where
  "or_empty usage_info =
     (case usage_info of
        None \<Rightarrow> JObj []
      | Some u \<Rightarrow> (if u = JObj [] then JObj [] else u))"

subsection \<open>\<^verbatim>\<open>stream_agent_progress\<close>\<close>

text \<open>
  The inner loop over \<^verbatim>\<open>message.content\<close>: the blocks left, the list
  \<^verbatim>\<open>response_parts\<close> so far; the result is the list afterwards and the events yielded.
\<close>

fun stream_blocks ::
  "'f content_block list \<Rightarrow> string list \<Rightarrow> string list \<times> 'f emission list" where
  "stream_blocks [] response_parts = (response_parts, [])"
| "stream_blocks (TextBlock t # blocks) response_parts =
     (case stream_blocks blocks (response_parts @ [t]) of
        (parts, evs) \<Rightarrow> (parts, response_event t # evs))"
| "stream_blocks (ToolUseBlock n i # blocks) response_parts =
     (case stream_blocks blocks response_parts of
        (parts, evs) \<Rightarrow> (parts, tool_use_event n i # evs))"
| "stream_blocks (_ # blocks) response_parts = stream_blocks blocks response_parts"

text \<open>
  The loop \<^verbatim>\<open>async for message in query(...)\<close>: the events yielded, and either the
  exception that left the loop or the values of \<^verbatim>\<open>response_parts\<close> and \<^verbatim>\<open>usage_info\<close>
  after it. A \<^verbatim>\<open>ResultMessage\<close> sets \<^verbatim>\<open>usage_info\<close> and breaks.
\<close>

fun stream_loop ::
  "'f agent_stream \<Rightarrow> string list \<Rightarrow> 'f json option \<Rightarrow>
   'f emission list \<times> (string + string list \<times> 'f json option)" where
  "stream_loop StreamEnd response_parts usage_info = ([], Inr (response_parts, usage_info))"
| "stream_loop (Raise e) response_parts usage_info = ([], Inl e)"
| "stream_loop (Yield (AssistantMessage content) rest) response_parts usage_info =
     (case stream_blocks content response_parts of
        (parts, evs) \<Rightarrow>
          (case stream_loop rest parts usage_info of
             (evs', r) \<Rightarrow> (evs @ evs', r)))"
| "stream_loop (Yield (ResultMessage duration cost turns session) rest) response_parts usage_info =
     ([], Inr (response_parts, Some (usage_dict duration cost turns session)))"
| "stream_loop (Yield OtherMessage rest) response_parts usage_info =
     stream_loop rest response_parts usage_info"

text \<open>
  The body of the generator, as the sequence of events it yields. The first event is
  yielded before the options are built; the handler of the \<^verbatim>\<open>try\<close> yields the error
  event after whatever was yielded before the exception.
\<close>

definition stream_body ::
  "(string list \<Rightarrow> string \<Rightarrow> string \<Rightarrow> int \<Rightarrow> string + 'o) \<Rightarrow>
   (string \<Rightarrow> 'o \<Rightarrow> 'f agent_stream) \<Rightarrow> query_request \<Rightarrow> 'f emission list" where
  "stream_body ClaudeAgentOptions query request =
     initializing_event #
     (case ClaudeAgentOptions (tools AGENT_CONFIG) (system_prompt AGENT_CONFIG)
             (permission_mode AGENT_CONFIG) (max_turns request) of
        Inl e \<Rightarrow> [error_event e]
      | Inr options \<Rightarrow>
          processing_event #
          (case stream_loop (query (prompt request) options) [] None of
             (evs, Inl e) \<Rightarrow> evs @ [error_event e]
           | (evs, Inr (response_parts, usage_info)) \<Rightarrow>
               evs @ [complete_event (full_response response_parts) (or_empty usage_info)]))"

text \<open>
  Every \<^verbatim>\<open>yield create_event(...)\<close> reads the clock once: \<open>clock k\<close> is the reading at the
  \<open>k\<close>-th event of the run, counted from 0.
\<close>

fun stamp :: "(nat \<Rightarrow> string) \<Rightarrow> nat \<Rightarrow> 'f emission list \<Rightarrow> 'f stream_event list" where
  "stamp clock k [] = []"
| "stamp clock k ((etype, edata) # evs) =
     create_event (clock k) etype edata # stamp clock (Suc k) evs"

definition stream_agent_progress ::
  "(nat \<Rightarrow> string) \<Rightarrow> (string list \<Rightarrow> string \<Rightarrow> string \<Rightarrow> int \<Rightarrow> string + 'o) \<Rightarrow>
   (string \<Rightarrow> 'o \<Rightarrow> 'f agent_stream) \<Rightarrow> query_request \<Rightarrow> 'f stream_event list" where
  "stream_agent_progress clock ClaudeAgentOptions query request =
     stamp clock 0 (stream_body ClaudeAgentOptions query request)"

subsection \<open>\<^verbatim>\<open>query_agent\<close>\<close>

fun query_blocks :: "'f content_block list \<Rightarrow> string list \<Rightarrow> string list" where
  "query_blocks [] response_parts = response_parts"
| "query_blocks (TextBlock t # blocks) response_parts =
     query_blocks blocks (response_parts @ [t])"
| "query_blocks (_ # blocks) response_parts = query_blocks blocks response_parts"

fun query_loop ::
  "'f agent_stream \<Rightarrow> string list \<Rightarrow> 'f json option \<Rightarrow>
   string + string list \<times> 'f json option" where
  "query_loop StreamEnd response_parts usage_info = Inr (response_parts, usage_info)"
| "query_loop (Raise e) response_parts usage_info = Inl e"
| "query_loop (Yield (AssistantMessage content) rest) response_parts usage_info =
     query_loop rest (query_blocks content response_parts) usage_info"
| "query_loop (Yield (ResultMessage duration cost turns session) rest) response_parts usage_info =
     Inr (response_parts, Some (usage_dict duration cost turns session))"
| "query_loop (Yield OtherMessage rest) response_parts usage_info =
     query_loop rest response_parts usage_info"

text \<open>
  \<^verbatim>\<open>raise HTTPException(status_code=500, detail=f"Agent execution failed: {str(e)}")\<close>
\<close>

definition agent_execution_failed :: "string \<Rightarrow> http_exception" where
  "agent_execution_failed e =
     \<lparr>status_code = 500, detail = ''Agent execution failed: '' @ e\<rparr>"

definition query_agent ::
  "(string list \<Rightarrow> string \<Rightarrow> string \<Rightarrow> int \<Rightarrow> string + 'o) \<Rightarrow>
   (string \<Rightarrow> 'o \<Rightarrow> 'f agent_stream) \<Rightarrow> query_request \<Rightarrow>
   http_exception + 'f query_response" where
  "query_agent ClaudeAgentOptions query request =
     (case ClaudeAgentOptions (tools AGENT_CONFIG) (system_prompt AGENT_CONFIG)
             (permission_mode AGENT_CONFIG) (max_turns request) of
        Inl e \<Rightarrow> Inl (agent_execution_failed e)
      | Inr options \<Rightarrow>
          (case query_loop (query (prompt request) options) [] None of
             Inl e \<Rightarrow> Inl (agent_execution_failed e)
           | Inr (response_parts, usage_info) \<Rightarrow>
               Inr \<lparr>status = ''success'',
                    response = full_response response_parts,
                    usage = or_empty usage_info,
                    agent_info = agent_info_dict\<rparr>))"

section \<open>Vocabulary of the specification\<close>

text \<open>
  The definitions of this section follow the words of the specification, not the code:
  what a run consumes of the agent's stream, the texts and the events that derive from a
  message, the usage summary a run records, and how a run fails.
\<close>

text \<open>A dictionary's \<^verbatim>\<open>get\<close>.\<close>

fun dict_get :: "'f json \<Rightarrow> string \<Rightarrow> 'f json option" where
  "dict_get (JObj entries) k = map_of entries k"
| "dict_get _ k = None"

text \<open>A relay event without its time of emission: its kind and its payload.\<close>

definition emission_of :: "'f stream_event \<Rightarrow> 'f emission" where
  "emission_of ev = (event_type ev, data ev)"

definition is_terminal :: "'f stream_event \<Rightarrow> bool" where
  "is_terminal ev = (event_type ev = ''complete'' \<or> event_type ev = ''error'')"

text \<open>The texts of the text fragments of a chunk, in order.\<close>

fun block_texts :: "'f content_block list \<Rightarrow> string list" where
  "block_texts [] = []"
| "block_texts (TextBlock t # blocks) = t # block_texts blocks"
| "block_texts (_ # blocks) = block_texts blocks"

text \<open>
  The events of a chunk: one \<open>response\<close> event for each text fragment and one \<open>tool_use\<close>
  event for each tool invocation, in the order of the blocks.
\<close>

fun block_events :: "'f content_block list \<Rightarrow> 'f emission list" where
  "block_events [] = []"
| "block_events (TextBlock t # blocks) = response_event t # block_events blocks"
| "block_events (ToolUseBlock n i # blocks) = tool_use_event n i # block_events blocks"
| "block_events (_ # blocks) = block_events blocks"

fun message_texts :: "'f message \<Rightarrow> string list" where
  "message_texts (AssistantMessage content) = block_texts content"
| "message_texts _ = []"

fun message_events :: "'f message \<Rightarrow> 'f emission list" where
  "message_events (AssistantMessage content) = block_events content"
| "message_events _ = []"

text \<open>
  The messages a run consumes: those the stream yields up to and including the first
  result summary, or up to the end of the stream or its failure.
\<close>

fun consumed :: "'f agent_stream \<Rightarrow> 'f message list" where
  "consumed StreamEnd = []"
| "consumed (Raise e) = []"
| "consumed (Yield (ResultMessage d c n s) rest) = [ResultMessage d c n s]"
| "consumed (Yield m rest) = m # consumed rest"

definition consumed_texts :: "'f agent_stream \<Rightarrow> string list" where
  "consumed_texts s = concat (map message_texts (consumed s))"

definition consumed_events :: "'f agent_stream \<Rightarrow> 'f emission list" where
  "consumed_events s = concat (map message_events (consumed s))"

text \<open>
  Texts joined by newline: the first text as it is, and then every further text, in
  order, each after one newline character.
\<close>

definition newline_separated :: "string list \<Rightarrow> string" where
  "newline_separated texts =
     (case texts of
        [] \<Rightarrow> []
      | t # ts \<Rightarrow> t @ concat (map (\<lambda>u. ''\<newline>'' @ u) ts))"

text \<open>The error the stream raises while it is consumed, if it raises one.\<close>

fun stream_failure :: "'f agent_stream \<Rightarrow> string option" where
  "stream_failure StreamEnd = None"
| "stream_failure (Raise e) = Some e"
| "stream_failure (Yield (ResultMessage d c n s) rest) = None"
| "stream_failure (Yield m rest) = stream_failure rest"

text \<open>The usage summary of the first result summary among some messages.\<close>

fun recorded_usage :: "'f message list \<Rightarrow> 'f json option" where
  "recorded_usage [] = None"
| "recorded_usage (ResultMessage d c n s # ms) =
     Some (JObj [(''duration_ms'', JInt d),
                 (''total_cost_usd'', (case c of None \<Rightarrow> JNull | Some x \<Rightarrow> JFloat x)),
                 (''num_turns'', JInt n),
                 (''session_id'', JStr s)])"
| "recorded_usage (_ # ms) = recorded_usage ms"

text \<open>
  The error of a run: the one raised while building the configuration, or else the one
  the stream raises.
\<close>

definition run_failure ::
  "(string list \<Rightarrow> string \<Rightarrow> string \<Rightarrow> int \<Rightarrow> string + 'o) \<Rightarrow>
   (string \<Rightarrow> 'o \<Rightarrow> 'f agent_stream) \<Rightarrow> query_request \<Rightarrow> string option" where
  "run_failure ClaudeAgentOptions query request =
     (case ClaudeAgentOptions (tools AGENT_CONFIG) (system_prompt AGENT_CONFIG)
             (permission_mode AGENT_CONFIG) (max_turns request) of
        Inl e \<Rightarrow> Some e
      | Inr options \<Rightarrow> stream_failure (query (prompt request) options))"

text \<open>A stream that yields some messages first and then goes on as another stream.\<close>

fun prepend :: "'f message list \<Rightarrow> 'f agent_stream \<Rightarrow> 'f agent_stream" where
  "prepend [] s = s"
| "prepend (m # ms) s = Yield m (prepend ms s)"

fun is_result :: "'f message \<Rightarrow> bool" where
  "is_result (ResultMessage d c n s) = True"
| "is_result _ = False"

text \<open>
  What it is for an event to carry a text fragment, and to carry a tool invocation.
\<close>

definition carries_text :: "string \<Rightarrow> 'f emission \<Rightarrow> bool" where
  "carries_text t em =
     (fst em = ''response'' \<and> dict_get (snd em) ''content'' = Some (JStr t) \<and>
      dict_get (snd em) ''partial'' = Some (JBool True))"

definition carries_tool :: "string \<Rightarrow> 'f json \<Rightarrow> 'f emission \<Rightarrow> bool" where
  "carries_tool n i em =
     (fst em = ''tool_use'' \<and> dict_get (snd em) ''tool'' = Some (JStr n) \<and>
      dict_get (snd em) ''input'' = Some i)"

text \<open>
  Reading a sequence of events against the blocks of a chunk: each text fragment and each
  tool invocation takes the next event, which must carry it; any other block takes none.
  The result is the events left over, or \<open>None\<close> when an event is missing or carries
  something else. Reading against a sequence of messages reads chunk after chunk.
\<close>

fun blocks_relayed :: "'f content_block list \<Rightarrow> 'f emission list \<Rightarrow> 'f emission list option" where
  "blocks_relayed [] ems = Some ems"
| "blocks_relayed (TextBlock t # blocks) ems =
     (case ems of
        [] \<Rightarrow> None
      | em # ems' \<Rightarrow> if carries_text t em then blocks_relayed blocks ems' else None)"
| "blocks_relayed (ToolUseBlock n i # blocks) ems =
     (case ems of
        [] \<Rightarrow> None
      | em # ems' \<Rightarrow> if carries_tool n i em then blocks_relayed blocks ems' else None)"
| "blocks_relayed (_ # blocks) ems = blocks_relayed blocks ems"

fun messages_relayed :: "'f message list \<Rightarrow> 'f emission list \<Rightarrow> 'f emission list option" where
  "messages_relayed [] ems = Some ems"
| "messages_relayed (AssistantMessage content # ms) ems =
     (case blocks_relayed content ems of
        None \<Rightarrow> None
      | Some ems' \<Rightarrow> messages_relayed ms ems')"
| "messages_relayed (_ # ms) ems = messages_relayed ms ems"

text \<open>
  The response and the usage that the \<open>complete\<close> event of a run carries, and those of a
  buffered outcome; \<open>None\<close> when there is no such event, or no outcome.
\<close>

definition complete_payload :: "'f stream_event list \<Rightarrow> (string \<times> 'f json) option" where
  "complete_payload evs =
     (case filter (\<lambda>ev. event_type ev = ''complete'') evs of
        [] \<Rightarrow> None
      | ev # _ \<Rightarrow>
          (case (dict_get (data ev) ''response'', dict_get (data ev) ''usage'') of
             (Some (JStr r), Some u) \<Rightarrow> Some (r, u)
           | _ \<Rightarrow> None))"

definition outcome_payload ::
  "http_exception + 'f query_response \<Rightarrow> (string \<times> 'f json) option" where
  "outcome_payload res = (case res of Inl _ \<Rightarrow> None | Inr r \<Rightarrow> Some (response r, usage r))"

text \<open>
  The blocks the relay has a case for, and a stream without the blocks it has none for.
\<close>

fun relayed_block :: "'f content_block \<Rightarrow> bool" where
  "relayed_block (TextBlock t) = True"
| "relayed_block (ToolUseBlock n i) = True"
| "relayed_block _ = False"

fun strip_stream :: "'f agent_stream \<Rightarrow> 'f agent_stream" where
  "strip_stream StreamEnd = StreamEnd"
| "strip_stream (Raise e) = Raise e"
| "strip_stream (Yield (AssistantMessage content) rest) =
     Yield (AssistantMessage (filter relayed_block content)) (strip_stream rest)"
| "strip_stream (Yield m rest) = Yield m (strip_stream rest)"

subsection \<open>Test doubles\<close>

text \<open>
  A configuration constructor that keeps its arguments, one that refuses them, an agent
  that plays a script whatever it is asked, and a clock that stands still. Floats are
  written by their decimal representation here.
\<close>

definition keep_options ::
  "string list \<Rightarrow> string \<Rightarrow> string \<Rightarrow> int \<Rightarrow> string + (string list \<times> string \<times> string \<times> int)" where
  "keep_options allowed_tools sys_prompt perm_mode turns =
     Inr (allowed_tools, sys_prompt, perm_mode, turns)"

definition refuse_options ::
  "string list \<Rightarrow> string \<Rightarrow> string \<Rightarrow> int \<Rightarrow> string + (string list \<times> string \<times> string \<times> int)" where
  "refuse_options allowed_tools sys_prompt perm_mode turns = Inl ''invalid options''"

definition scripted ::
  "'f agent_stream \<Rightarrow> string \<Rightarrow> (string list \<times> string \<times> string \<times> int) \<Rightarrow> 'f agent_stream" where
  "scripted s prompt_text options = s"

definition still_clock :: "nat \<Rightarrow> string" where
  "still_clock k = ''2026-01-11T18:51:21''"

definition usd_eur_request :: query_request where
  "usd_eur_request = \<lparr>prompt = ''Get USD/EUR rate'', max_turns = 5\<rparr>"

definition usd_eur_stream :: "string agent_stream" where
  "usd_eur_stream =
     Yield (AssistantMessage [TextBlock ''1 USD = 0.92 EUR''])
       (Yield (ResultMessage 1200 (Some ''0.002'') 1 ''s1'') StreamEnd)"

definition broken_stream :: "string agent_stream" where
  "broken_stream =
     Yield (AssistantMessage
              [TextBlock ''Looking up rates'',
               ToolUseBlock ''WebSearch'' (JObj [(''query'', JStr ''USD EUR'')])])
       (Raise ''connection lost'')"

definition overlong_stream :: "string agent_stream" where
  "overlong_stream =
     Yield (AssistantMessage [TextBlock ''1 USD = 0.92 EUR''])
       (Yield (ResultMessage 1200 (Some ''0.002'') 1 ''s1'')
          (Yield (AssistantMessage [TextBlock ''too late'']) (Raise ''never read'')))"

definition chatty_stream :: "string agent_stream" where
  "chatty_stream =
     Yield (AssistantMessage
              [TextBlock ''Checking rates'',
               ToolUseBlock ''WebSearch'' (JObj [(''query'', JStr ''USD EUR'')]),
               ToolResultBlock])
       (Yield OtherMessage
          (Yield (AssistantMessage [OtherBlock, TextBlock ''1 USD = 0.92 EUR''])
             (Yield (ResultMessage 1200 (Some ''0.002'') 1 ''s1'') StreamEnd)))"

definition multi_fragment_stream :: "string agent_stream" where
  "multi_fragment_stream =
     Yield (AssistantMessage
              [TextBlock ''1 USD = 0.92 EUR'',
               ToolUseBlock ''WebFetch'' (JObj [(''url'', JStr ''rates'')]),
               TextBlock ''1 USD = 0.79 GBP''])
       (Yield (AssistantMessage [TextBlock ''1 USD = 151.20 JPY''])
          (Yield (ResultMessage 2400 (Some ''0.004'') 2 ''s2'') StreamEnd))"

definition two_turn_stream :: "string agent_stream" where
  "two_turn_stream =
     Yield (AssistantMessage [TextBlock ''Rates as of today'', TextBlock []])
       (Yield OtherMessage
          (Yield (AssistantMessage [TextBlock ''EUR 0.92'', TextBlock ''GBP 0.79''])
             (Yield (ResultMessage 3100 None 2 ''s7'') StreamEnd)))"

section \<open>The two loops\<close>

lemma stream_blocks_eq:
  "stream_blocks blocks parts = (parts @ block_texts blocks, block_events blocks)"
  by (induction blocks parts rule: stream_blocks.induct) simp_all

lemma query_blocks_eq: "query_blocks blocks parts = parts @ block_texts blocks"
  by (induction blocks parts rule: query_blocks.induct) simp_all

lemma stream_loop_result: "snd (stream_loop s parts u) = query_loop s parts u"
  by (induction s parts u rule: stream_loop.induct)
     (auto simp: stream_blocks_eq query_blocks_eq split: prod.splits)

lemma stream_loop_events: "fst (stream_loop s parts u) = consumed_events s"
  by (induction s parts u rule: stream_loop.induct)
     (auto simp: consumed_events_def stream_blocks_eq split: prod.splits)

lemma query_loop_eq:
  "query_loop s parts u =
     (case stream_failure s of
        Some e \<Rightarrow> Inl e
      | None \<Rightarrow> Inr (parts @ consumed_texts s,
                     (case recorded_usage (consumed s) of None \<Rightarrow> u | Some d \<Rightarrow> Some d)))"
  by (induction s parts u rule: query_loop.induct)
     (simp_all add: consumed_texts_def query_blocks_eq usage_dict_def split: option.splits)

lemma stream_loop_eq:
  "stream_loop s parts u = (consumed_events s, query_loop s parts u)"
  by (metis prod.collapse stream_loop_events stream_loop_result)

subsection \<open>Stamping\<close>

lemma stamp_append:
  "stamp clock k (xs @ ys) = stamp clock k xs @ stamp clock (k + length xs) ys"
  by (induction xs arbitrary: k) auto

lemma map_emission_stamp: "map emission_of (stamp clock k evs) = evs"
  by (induction evs arbitrary: k) (auto simp: emission_of_def create_event_def)

lemma length_stamp: "length (stamp clock k evs) = length evs"
  by (induction evs arbitrary: k) auto

lemma emissions_of_run:
  "map emission_of (stream_agent_progress clock ClaudeAgentOptions query request) =
     stream_body ClaudeAgentOptions query request"
  by (simp add: stream_agent_progress_def map_emission_stamp)

section \<open>The two entry points\<close>

lemma or_empty_recorded:
  "or_empty (recorded_usage ms) = (case recorded_usage ms of None \<Rightarrow> JObj [] | Some u \<Rightarrow> u)"
  by (simp add: or_empty_def split: option.splits)

lemma stream_body_eq:
  "stream_body ClaudeAgentOptions query request =
     initializing_event #
     (case ClaudeAgentOptions (tools AGENT_CONFIG) (system_prompt AGENT_CONFIG)
             (permission_mode AGENT_CONFIG) (max_turns request) of
        Inl e \<Rightarrow> [error_event e]
      | Inr options \<Rightarrow>
          processing_event # consumed_events (query (prompt request) options) @
          [case stream_failure (query (prompt request) options) of
             Some e \<Rightarrow> error_event e
           | None \<Rightarrow>
               complete_event
                 (full_response (consumed_texts (query (prompt request) options)))
                 (or_empty (recorded_usage (consumed (query (prompt request) options))))])"
  by (simp add: stream_body_def stream_loop_eq query_loop_eq split: sum.splits option.splits)

lemma query_agent_eq:
  "query_agent ClaudeAgentOptions query request =
     (case ClaudeAgentOptions (tools AGENT_CONFIG) (system_prompt AGENT_CONFIG)
             (permission_mode AGENT_CONFIG) (max_turns request) of
        Inl e \<Rightarrow> Inl (agent_execution_failed e)
      | Inr options \<Rightarrow>
          (case stream_failure (query (prompt request) options) of
             Some e \<Rightarrow> Inl (agent_execution_failed e)
           | None \<Rightarrow>
               Inr \<lparr>status = ''success'',
                    response = full_response (consumed_texts (query (prompt request) options)),
                    usage = or_empty (recorded_usage (consumed (query (prompt request) options))),
                    agent_info = agent_info_dict\<rparr>))"
  by (simp add: query_agent_def query_loop_eq split: sum.splits option.splits)

lemma fst_block_events: "em \<in> set (block_events blocks) \<Longrightarrow> fst em = ''response'' \<or> fst em = ''tool_use''"
  by (induction blocks rule: block_events.induct)
     (auto simp: response_event_def tool_use_event_def)

lemma fst_consumed_events:
  "em \<in> set (consumed_events s) \<Longrightarrow> fst em = ''response'' \<or> fst em = ''tool_use''"
  by (induction s rule: consumed.induct)
     (auto simp: consumed_events_def dest: fst_block_events)

lemma last_stream_body:
  "last (stream_body ClaudeAgentOptions query request) =
     (case ClaudeAgentOptions (tools AGENT_CONFIG) (system_prompt AGENT_CONFIG)
             (permission_mode AGENT_CONFIG) (max_turns request) of
        Inl e \<Rightarrow> error_event e
      | Inr options \<Rightarrow>
          (case stream_failure (query (prompt request) options) of
             Some e \<Rightarrow> error_event e
           | None \<Rightarrow>
               complete_event
                 (full_response (consumed_texts (query (prompt request) options)))
                 (or_empty (recorded_usage (consumed (query (prompt request) options))))))"
  by (simp add: stream_body_eq split: sum.splits)

lemma butlast_stream_body:
  "butlast (stream_body ClaudeAgentOptions query request) =
     initializing_event #
     (case ClaudeAgentOptions (tools AGENT_CONFIG) (system_prompt AGENT_CONFIG)
             (permission_mode AGENT_CONFIG) (max_turns request) of
        Inl e \<Rightarrow> []
      | Inr options \<Rightarrow> processing_event # consumed_events (query (prompt request) options))"
  by (simp add: stream_body_eq butlast_append split: sum.splits)

lemma stream_body_not_empty: "stream_body ClaudeAgentOptions query request \<noteq> []"
  by (simp add: stream_body_eq)

lemma fst_last_stream_body:
  "fst (last (stream_body ClaudeAgentOptions query request)) = ''complete'' \<or>
   fst (last (stream_body ClaudeAgentOptions query request)) = ''error''"
  by (simp add: last_stream_body complete_event_def error_event_def
           split: sum.splits option.splits)

lemma fst_butlast_stream_body:
  assumes "em \<in> set (butlast (stream_body ClaudeAgentOptions query request))"
  shows "fst em \<noteq> ''complete'' \<and> fst em \<noteq> ''error''"
proof -
  have "fst em = ''progress'' \<or> fst em = ''response'' \<or> fst em = ''tool_use''"
    using assms
    by (auto simp: butlast_stream_body initializing_event_def processing_event_def
             split: sum.splits dest: fst_consumed_events)
  then show ?thesis by auto
qed

lemma run_not_empty: "stream_agent_progress clock ClaudeAgentOptions query request \<noteq> []"
  using stream_body_not_empty [of ClaudeAgentOptions query request]
        length_stamp [of clock 0 "stream_body ClaudeAgentOptions query request"]
  by (auto simp: stream_agent_progress_def)

lemma emission_of_last_run:
  "emission_of (last (stream_agent_progress clock ClaudeAgentOptions query request)) =
     last (stream_body ClaudeAgentOptions query request)"
  using run_not_empty [of clock ClaudeAgentOptions query request]
        emissions_of_run [of clock ClaudeAgentOptions query request]
  by (metis last_map)

lemma is_terminal_emission:
  "is_terminal ev = (fst (emission_of ev) = ''complete'' \<or> fst (emission_of ev) = ''error'')"
  by (simp add: is_terminal_def emission_of_def)

lemma terminal_events_of_run:
  "filter is_terminal (stream_agent_progress clock ClaudeAgentOptions query request) =
     [last (stream_agent_progress clock ClaudeAgentOptions query request)]"
proof -
  let ?evs = "stream_agent_progress clock ClaudeAgentOptions query request"
  have ne: "?evs \<noteq> []" by (rule run_not_empty)
  have "map emission_of (butlast ?evs) = butlast (stream_body ClaudeAgentOptions query request)"
    by (simp add: map_butlast emissions_of_run)
  then have "\<forall>ev \<in> set (butlast ?evs). \<not> is_terminal ev"
    using fst_butlast_stream_body [of _ ClaudeAgentOptions query request]
    by (metis (no_types, lifting) image_eqI is_terminal_emission list.set_map)
  then have "filter is_terminal (butlast ?evs) = []"
    by (simp add: filter_empty_conv)
  moreover have "is_terminal (last ?evs)"
    using fst_last_stream_body [of ClaudeAgentOptions query request]
    by (simp add: is_terminal_emission emission_of_last_run)
  moreover have "?evs = butlast ?evs @ [last ?evs]"
    using ne by simp
  ultimately show ?thesis
    by (metis append_Nil filter.simps(1) filter.simps(2) filter_append)
qed

lemma event_type_last_run:
  "event_type (last (stream_agent_progress clock ClaudeAgentOptions query request)) =
     fst (last (stream_body ClaudeAgentOptions query request))"
proof -
  have "fst (emission_of (last (stream_agent_progress clock ClaudeAgentOptions query request))) =
      fst (last (stream_body ClaudeAgentOptions query request))"
    by (simp only: emission_of_last_run)
  then show ?thesis by (simp add: emission_of_def)
qed

lemma data_last_run:
  "data (last (stream_agent_progress clock ClaudeAgentOptions query request)) =
     snd (last (stream_body ClaudeAgentOptions query request))"
proof -
  have "snd (emission_of (last (stream_agent_progress clock ClaudeAgentOptions query request))) =
      snd (last (stream_body ClaudeAgentOptions query request))"
    by (simp only: emission_of_last_run)
  then show ?thesis by (simp add: emission_of_def)
qed

lemma join_newline_separated: "join_newline parts = newline_separated parts"
  by (induction parts rule: join_newline.induct) (simp_all add: newline_separated_def)

lemma full_response_separated:
  "full_response parts =
     (if parts = [] then ''No response received'' else newline_separated parts)"
  by (simp add: full_response_def join_newline_separated)

lemma complete_events_of_run:
  "filter (\<lambda>ev. event_type ev = ''complete'')
     (stream_agent_progress clock ClaudeAgentOptions query request) =
   (if fst (last (stream_body ClaudeAgentOptions query request)) = ''complete''
    then [last (stream_agent_progress clock ClaudeAgentOptions query request)] else [])"
proof -
  let ?evs = "stream_agent_progress clock ClaudeAgentOptions query request"
  have "filter (\<lambda>ev. event_type ev = ''complete'') ?evs =
      filter (\<lambda>ev. event_type ev = ''complete'') (filter is_terminal ?evs)"
    by (auto simp: is_terminal_def intro: filter_cong)
  also have "\<dots> = filter (\<lambda>ev. event_type ev = ''complete'') [last ?evs]"
    by (simp only: terminal_events_of_run)
  finally show ?thesis
    by (simp add: event_type_last_run)
qed

subsection \<open>Streams that reach a result summary\<close>

lemma consumed_prepend_result:
  "filter is_result msgs = [] \<Longrightarrow>
   consumed (prepend msgs (Yield (ResultMessage d c n sid) rest)) =
     msgs @ [ResultMessage d c n sid]"
proof (induction msgs)
  case Nil
  then show ?case by simp
next
  case (Cons m ms)
  then show ?case by (cases m) (simp_all split: if_splits)
qed

lemma stream_failure_prepend_result:
  "filter is_result msgs = [] \<Longrightarrow>
   stream_failure (prepend msgs (Yield (ResultMessage d c n sid) rest)) = None"
proof (induction msgs)
  case Nil
  then show ?case by simp
next
  case (Cons m ms)
  then show ?case by (cases m) (simp_all split: if_splits)
qed

lemma recorded_usage_append:
  "filter is_result msgs = [] \<Longrightarrow> recorded_usage (msgs @ ms) = recorded_usage ms"
proof (induction msgs)
  case Nil
  then show ?case by simp
next
  case (Cons m ms')
  then show ?case by (cases m) (simp_all split: if_splits)
qed

subsection \<open>Events read against the messages\<close>

lemma blocks_relayed_events:
  "blocks_relayed blocks (block_events blocks @ ems) = Some ems"
  by (induction blocks rule: block_events.induct)
     (simp_all add: carries_text_def carries_tool_def response_event_def tool_use_event_def)

lemma messages_relayed_events:
  "messages_relayed ms (concat (map message_events ms) @ ems) = Some ems"
proof (induction ms)
  case Nil
  then show ?case by simp
next
  case (Cons m ms)
  then show ?case by (cases m) (simp_all add: blocks_relayed_events)
qed

subsection \<open>Blocks without a case\<close>

lemma block_texts_filter: "block_texts (filter relayed_block blocks) = block_texts blocks"
  by (induction blocks rule: block_texts.induct) simp_all

lemma block_events_filter: "block_events (filter relayed_block blocks) = block_events blocks"
  by (induction blocks rule: block_events.induct) simp_all

lemma consumed_texts_strip: "consumed_texts (strip_stream s) = consumed_texts s"
  by (induction s rule: strip_stream.induct)
     (simp_all add: consumed_texts_def block_texts_filter)

lemma consumed_events_strip: "consumed_events (strip_stream s) = consumed_events s"
  by (induction s rule: strip_stream.induct)
     (simp_all add: consumed_events_def block_events_filter)

lemma stream_failure_strip: "stream_failure (strip_stream s) = stream_failure s"
  by (induction s rule: strip_stream.induct) simp_all

lemma recorded_usage_strip:
  "recorded_usage (consumed (strip_stream s)) = recorded_usage (consumed s)"
  by (induction s rule: strip_stream.induct) simp_all

subsection \<open>Unfolding a run on a test double\<close>

lemmas run_defs =
  stream_agent_progress_def stream_body_def query_agent_def keep_options_def refuse_options_def
  scripted_def usd_eur_request_def

section \<open>Properties of the relay\<close>

text \<open>
  C1. In both modes, a run that finishes without error has as its full response the
  texts of the text fragments it consumed, in arrival order, joined by newline; when it
  consumed no text fragment, the full response is the literal \<^verbatim>\<open>No response received\<close>.
  The buffered outcome returns that string as \<open>response\<close>, and the last event of the
  streaming run is the \<open>complete\<close> event carrying it. The join is stated with
  \<open>newline_separated\<close>, which is defined apart from the relay's own \<open>join_newline\<close>.
\<close>

theorem full_response_joins_consumed_texts:
  assumes "ClaudeAgentOptions (tools AGENT_CONFIG) (system_prompt AGENT_CONFIG)
             (permission_mode AGENT_CONFIG) (max_turns request) = Inr options"
    and "stream_failure (query (prompt request) options) = None"
  shows "(\<exists>r. query_agent ClaudeAgentOptions query request = Inr r \<and>
            response r =
              (if consumed_texts (query (prompt request) options) = []
               then ''No response received''
               else newline_separated (consumed_texts (query (prompt request) options)))) \<and>
         event_type (last (stream_agent_progress clock ClaudeAgentOptions query request)) =
           ''complete'' \<and>
         dict_get (data (last (stream_agent_progress clock ClaudeAgentOptions query request)))
             ''response'' =
           Some (JStr (if consumed_texts (query (prompt request) options) = []
                       then ''No response received''
                       else newline_separated
                              (consumed_texts (query (prompt request) options))))"
proof -
  have buffered: "query_agent ClaudeAgentOptions query request =
      Inr \<lparr>status = ''success'',
           response = full_response (consumed_texts (query (prompt request) options)),
           usage = or_empty (recorded_usage (consumed (query (prompt request) options))),
           agent_info = agent_info_dict\<rparr>"
    using assms by (simp add: query_agent_eq)
  have streamed: "last (stream_body ClaudeAgentOptions query request) =
      complete_event (full_response (consumed_texts (query (prompt request) options)))
        (or_empty (recorded_usage (consumed (query (prompt request) options))))"
    using assms by (simp add: last_stream_body)
  show ?thesis
    by (simp add: buffered event_type_last_run data_last_run streamed complete_event_def
          full_response_separated)
qed

theorem full_response_joins_consumed_texts_witness:
  "keep_options (tools AGENT_CONFIG) (system_prompt AGENT_CONFIG)
     (permission_mode AGENT_CONFIG) (max_turns usd_eur_request) =
     Inr (tools AGENT_CONFIG, system_prompt AGENT_CONFIG, permission_mode AGENT_CONFIG, 5) \<and>
   stream_failure (scripted multi_fragment_stream (prompt usd_eur_request)
     (tools AGENT_CONFIG, system_prompt AGENT_CONFIG, permission_mode AGENT_CONFIG, 5)) = None \<and>
   (\<exists>r. query_agent keep_options (scripted multi_fragment_stream) usd_eur_request = Inr r \<and>
        response r =
          ''1 USD = 0.92 EUR\<newline>1 USD = 0.79 GBP\<newline>1 USD = 151.20 JPY'') \<and>
   event_type (last (stream_agent_progress still_clock keep_options
     (scripted multi_fragment_stream) usd_eur_request)) = ''complete'' \<and>
   dict_get (data (last (stream_agent_progress still_clock keep_options
     (scripted multi_fragment_stream) usd_eur_request))) ''response'' =
     Some (JStr ''1 USD = 0.92 EUR\<newline>1 USD = 0.79 GBP\<newline>1 USD = 151.20 JPY'')"
proof -
  have h1: "keep_options (tools AGENT_CONFIG) (system_prompt AGENT_CONFIG)
      (permission_mode AGENT_CONFIG) (max_turns usd_eur_request) =
      Inr (tools AGENT_CONFIG, system_prompt AGENT_CONFIG, permission_mode AGENT_CONFIG, 5)"
    by (simp add: keep_options_def usd_eur_request_def)
  have h2: "stream_failure (scripted multi_fragment_stream (prompt usd_eur_request)
      (tools AGENT_CONFIG, system_prompt AGENT_CONFIG, permission_mode AGENT_CONFIG, 5)) = None"
    by (simp add: scripted_def multi_fragment_stream_def)
  have texts: "consumed_texts (scripted multi_fragment_stream (prompt usd_eur_request)
      (tools AGENT_CONFIG, system_prompt AGENT_CONFIG, permission_mode AGENT_CONFIG, 5)) =
      [''1 USD = 0.92 EUR'', ''1 USD = 0.79 GBP'', ''1 USD = 151.20 JPY'']"
    by (simp add: scripted_def multi_fragment_stream_def consumed_texts_def)
  show ?thesis
    using h1 h2
      full_response_joins_consumed_texts
        [where ClaudeAgentOptions = keep_options and query = "scripted multi_fragment_stream"
           and request = usd_eur_request and clock = still_clock, OF h1 h2]
    by (simp add: texts newline_separated_def)
qed

text \<open>
  C2. Every streaming run emits exactly one terminal event, of kind \<open>complete\<close> or
  \<open>error\<close>, and that event is the last one of the run, so that no event follows it.
  This holds whether the configuration is built or not and whether the stream ends, is
  stopped by a result summary or raises.
\<close>

theorem exactly_one_terminal_event:
  "length (filter is_terminal (stream_agent_progress clock ClaudeAgentOptions query request)) = 1 \<and>
   is_terminal (last (stream_agent_progress clock ClaudeAgentOptions query request))"
proof -
  let ?evs = "stream_agent_progress clock ClaudeAgentOptions query request"
  have eq: "filter is_terminal ?evs = [last ?evs]" by (rule terminal_events_of_run)
  have "last ?evs \<in> set (filter is_terminal ?evs)" by (simp add: eq)
  then have "is_terminal (last ?evs)" by simp
  then show ?thesis by (simp add: eq)
qed

theorem exactly_one_terminal_event_witness:
  "length (filter is_terminal
     (stream_agent_progress still_clock keep_options (scripted broken_stream)
        usd_eur_request)) = 1 \<and>
   is_terminal (last
     (stream_agent_progress still_clock keep_options (scripted broken_stream)
        usd_eur_request)) \<and>
   map event_type
     (stream_agent_progress still_clock keep_options (scripted usd_eur_stream)
        usd_eur_request) = [''progress'', ''progress'', ''response'', ''complete'']"
proof -
  have kinds: "map event_type
     (stream_agent_progress still_clock keep_options (scripted usd_eur_stream)
        usd_eur_request) = [''progress'', ''progress'', ''response'', ''complete'']"
    by (simp add: run_defs usd_eur_stream_def create_event_def initializing_event_def
          processing_event_def response_event_def complete_event_def)
  show ?thesis
    using exactly_one_terminal_event
            [of still_clock keep_options "scripted broken_stream" usd_eur_request] kinds
    by simp
qed

text \<open>
  C3. When the stream yields some messages that are not result summaries and then a
  result summary, both modes record the duration, cost, number of turns and session of
  that summary as the usage and stop: the buffered outcome and the whole sequence of
  streamed events are determined by the messages before the summary and the summary
  itself, whatever the stream would yield or raise afterwards.
\<close>

theorem result_summary_stops_consumption:
  assumes "ClaudeAgentOptions (tools AGENT_CONFIG) (system_prompt AGENT_CONFIG)
             (permission_mode AGENT_CONFIG) (max_turns request) = Inr options"
    and "filter is_result msgs = []"
    and "query (prompt request) options =
           prepend msgs (Yield (ResultMessage d c n sid) rest)"
  shows "query_agent ClaudeAgentOptions query request =
           Inr \<lparr>status = ''success'',
                response = full_response (concat (map message_texts msgs)),
                usage = JObj [(''duration_ms'', JInt d),
                              (''total_cost_usd'', (case c of None \<Rightarrow> JNull | Some x \<Rightarrow> JFloat x)),
                              (''num_turns'', JInt n),
                              (''session_id'', JStr sid)],
                agent_info = agent_info_dict\<rparr> \<and>
         stream_agent_progress clock ClaudeAgentOptions query request =
           stamp clock 0
             (initializing_event # processing_event # concat (map message_events msgs) @
              [complete_event (full_response (concat (map message_texts msgs)))
                 (JObj [(''duration_ms'', JInt d),
                        (''total_cost_usd'', (case c of None \<Rightarrow> JNull | Some x \<Rightarrow> JFloat x)),
                        (''num_turns'', JInt n),
                        (''session_id'', JStr sid)])])"
proof -
  let ?s = "query (prompt request) options"
  have cons: "consumed ?s = msgs @ [ResultMessage d c n sid]"
    using assms(2,3) by (simp add: consumed_prepend_result)
  have ok: "stream_failure ?s = None"
    using assms(2,3) by (simp add: stream_failure_prepend_result)
  have texts: "consumed_texts ?s = concat (map message_texts msgs)"
    by (simp add: consumed_texts_def cons)
  have events: "consumed_events ?s = concat (map message_events msgs)"
    by (simp add: consumed_events_def cons)
  have use: "recorded_usage (consumed ?s) =
      Some (JObj [(''duration_ms'', JInt d),
                  (''total_cost_usd'', (case c of None \<Rightarrow> JNull | Some x \<Rightarrow> JFloat x)),
                  (''num_turns'', JInt n),
                  (''session_id'', JStr sid)])"
    using assms(2) by (simp add: cons recorded_usage_append)
  show ?thesis
    using assms(1) ok
    by (simp add: query_agent_eq stream_agent_progress_def stream_body_eq texts events use
          or_empty_def)
qed

theorem result_summary_stops_consumption_witness:
  "keep_options (tools AGENT_CONFIG) (system_prompt AGENT_CONFIG)
     (permission_mode AGENT_CONFIG) (max_turns usd_eur_request) =
     Inr (tools AGENT_CONFIG, system_prompt AGENT_CONFIG, permission_mode AGENT_CONFIG, 5) \<and>
   filter is_result [AssistantMessage [TextBlock ''1 USD = 0.92 EUR'']] =
     ([] :: string message list) \<and>
   scripted overlong_stream (prompt usd_eur_request)
     (tools AGENT_CONFIG, system_prompt AGENT_CONFIG, permission_mode AGENT_CONFIG, 5) =
     prepend [AssistantMessage [TextBlock ''1 USD = 0.92 EUR'']]
       (Yield (ResultMessage 1200 (Some ''0.002'') 1 ''s1'')
          (Yield (AssistantMessage [TextBlock ''too late'']) (Raise ''never read''))) \<and>
   query_agent keep_options (scripted overlong_stream) usd_eur_request =
     Inr \<lparr>status = ''success'', response = ''1 USD = 0.92 EUR'',
          usage = JObj [(''duration_ms'', JInt 1200), (''total_cost_usd'', JFloat ''0.002''),
                        (''num_turns'', JInt 1), (''session_id'', JStr ''s1'')],
          agent_info = agent_info_dict\<rparr> \<and>
   stream_agent_progress still_clock keep_options (scripted overlong_stream) usd_eur_request =
     stamp still_clock 0
       [initializing_event, processing_event, response_event ''1 USD = 0.92 EUR'',
        complete_event ''1 USD = 0.92 EUR''
          (JObj [(''duration_ms'', JInt 1200), (''total_cost_usd'', JFloat ''0.002''),
                 (''num_turns'', JInt 1), (''session_id'', JStr ''s1'')])]"
proof -
  have h1: "keep_options (tools AGENT_CONFIG) (system_prompt AGENT_CONFIG)
      (permission_mode AGENT_CONFIG) (max_turns usd_eur_request) =
      Inr (tools AGENT_CONFIG, system_prompt AGENT_CONFIG, permission_mode AGENT_CONFIG, 5)"
    by (simp add: keep_options_def usd_eur_request_def)
  have h2: "filter is_result [AssistantMessage [TextBlock ''1 USD = 0.92 EUR'']] =
      ([] :: string message list)"
    by simp
  have h3: "scripted overlong_stream (prompt usd_eur_request)
      (tools AGENT_CONFIG, system_prompt AGENT_CONFIG, permission_mode AGENT_CONFIG, 5) =
      prepend [AssistantMessage [TextBlock ''1 USD = 0.92 EUR'']]
        (Yield (ResultMessage 1200 (Some ''0.002'') 1 ''s1'')
           (Yield (AssistantMessage [TextBlock ''too late'']) (Raise ''never read'')))"
    by (simp add: scripted_def overlong_stream_def)
  show ?thesis
    using h1 h2 h3
      result_summary_stops_consumption [where ClaudeAgentOptions = keep_options and query = "scripted overlong_stream"
            and request = usd_eur_request and clock = still_clock, OF h1 h2 h3]
    by (simp add: full_response_def)
qed

text \<open>
  C4. In streaming mode, a run that fails, while building the configuration or while
  consuming the stream, ends with an \<open>error\<close> event whose payload carries the error's
  string under \<open>error\<close>; that event is the last event of the run and its only terminal
  event.
\<close>

theorem streaming_failure_single_error_event:
  assumes "run_failure ClaudeAgentOptions query request = Some e"
  shows "event_type (last (stream_agent_progress clock ClaudeAgentOptions query request)) =
           ''error'' \<and>
         dict_get (data (last (stream_agent_progress clock ClaudeAgentOptions query request)))
             ''error'' = Some (JStr e) \<and>
         filter is_terminal (stream_agent_progress clock ClaudeAgentOptions query request) =
           [last (stream_agent_progress clock ClaudeAgentOptions query request)]"
proof -
  have "last (stream_body ClaudeAgentOptions query request) = error_event e"
    using assms by (auto simp: run_failure_def last_stream_body split: sum.splits)
  then show ?thesis
    by (simp add: event_type_last_run data_last_run terminal_events_of_run error_event_def)
qed

theorem streaming_failure_single_error_event_witness:
  "run_failure keep_options (scripted broken_stream) usd_eur_request = Some ''connection lost'' \<and>
   event_type (last (stream_agent_progress still_clock keep_options (scripted broken_stream)
     usd_eur_request)) = ''error'' \<and>
   dict_get (data (last (stream_agent_progress still_clock keep_options (scripted broken_stream)
     usd_eur_request))) ''error'' = Some (JStr ''connection lost'') \<and>
   filter is_terminal (stream_agent_progress still_clock keep_options (scripted broken_stream)
     usd_eur_request) =
   [last (stream_agent_progress still_clock keep_options (scripted broken_stream)
     usd_eur_request)] \<and>
   map event_type (stream_agent_progress still_clock keep_options (scripted broken_stream)
     usd_eur_request) = [''progress'', ''progress'', ''response'', ''tool_use'', ''error'']"
proof -
  have h: "run_failure keep_options (scripted broken_stream) usd_eur_request =
      Some ''connection lost''"
    by (simp add: run_failure_def keep_options_def scripted_def broken_stream_def)
  have kinds: "map event_type (stream_agent_progress still_clock keep_options
      (scripted broken_stream) usd_eur_request) =
      [''progress'', ''progress'', ''response'', ''tool_use'', ''error'']"
    by (simp add: run_defs broken_stream_def create_event_def initializing_event_def
          processing_event_def response_event_def tool_use_event_def error_event_def)
  show ?thesis
    using h streaming_failure_single_error_event [OF h, of still_clock] kinds by simp
qed

text \<open>
  C5. In buffered mode a run that fails, while building the configuration or while
  consuming the stream, returns no outcome: it raises the HTTP exception of status 500
  whose detail is \<^verbatim>\<open>Agent execution failed: \<close> followed by the error's string.
\<close>

theorem buffered_failure_is_http_500:
  assumes "run_failure ClaudeAgentOptions query request = Some e"
  shows "query_agent ClaudeAgentOptions query request =
           Inl \<lparr>status_code = 500, detail = ''Agent execution failed: '' @ e\<rparr>"
  using assms
  by (auto simp: run_failure_def query_agent_eq agent_execution_failed_def split: sum.splits)

theorem buffered_failure_is_http_500_witness:
  "run_failure keep_options (scripted broken_stream) usd_eur_request = Some ''connection lost'' \<and>
   query_agent keep_options (scripted broken_stream) usd_eur_request =
     Inl \<lparr>status_code = 500, detail = ''Agent execution failed: connection lost''\<rparr>"
proof -
  have h: "run_failure keep_options (scripted broken_stream) usd_eur_request = Some ''connection lost''"
    by (simp add: run_failure_def keep_options_def scripted_def broken_stream_def)
  show ?thesis using h buffered_failure_is_http_500 [OF h] by simp
qed

text \<open>
  C6. For every configuration constructor, agent and request, the response and the usage
  of the buffered outcome are those carried by the \<open>complete\<close> event of the streaming run
  on the same stream; the streaming run has no \<open>complete\<close> event exactly when the
  buffered run has no outcome.
\<close>

theorem buffered_outcome_matches_complete_event:
  "complete_payload (stream_agent_progress clock ClaudeAgentOptions query request) =
     outcome_payload (query_agent ClaudeAgentOptions query request)"
proof (cases "ClaudeAgentOptions (tools AGENT_CONFIG) (system_prompt AGENT_CONFIG)
                (permission_mode AGENT_CONFIG) (max_turns request)")
  case (Inl e)
  then have "last (stream_body ClaudeAgentOptions query request) = error_event e"
    by (simp add: last_stream_body)
  then show ?thesis
    using Inl
    by (simp add: complete_payload_def outcome_payload_def complete_events_of_run
          query_agent_eq error_event_def)
next
  case (Inr options)
  show ?thesis
  proof (cases "stream_failure (query (prompt request) options)")
    case None
    then have "last (stream_body ClaudeAgentOptions query request) =
        complete_event (full_response (consumed_texts (query (prompt request) options)))
          (or_empty (recorded_usage (consumed (query (prompt request) options))))"
      using Inr by (simp add: last_stream_body)
    then show ?thesis
      using Inr None
      by (simp add: complete_payload_def outcome_payload_def complete_events_of_run
            query_agent_eq data_last_run complete_event_def)
  next
    case (Some e)
    then have "last (stream_body ClaudeAgentOptions query request) = error_event e"
      using Inr by (simp add: last_stream_body)
    then show ?thesis
      using Inr Some
      by (simp add: complete_payload_def outcome_payload_def complete_events_of_run
            query_agent_eq error_event_def)
  qed
qed

theorem buffered_outcome_matches_complete_event_witness:
  "complete_payload (stream_agent_progress still_clock keep_options (scripted usd_eur_stream)
     usd_eur_request) =
     Some (''1 USD = 0.92 EUR'',
           JObj [(''duration_ms'', JInt 1200), (''total_cost_usd'', JFloat ''0.002''),
                 (''num_turns'', JInt 1), (''session_id'', JStr ''s1'')]) \<and>
   outcome_payload (query_agent keep_options (scripted usd_eur_stream) usd_eur_request) =
     Some (''1 USD = 0.92 EUR'',
           JObj [(''duration_ms'', JInt 1200), (''total_cost_usd'', JFloat ''0.002''),
                 (''num_turns'', JInt 1), (''session_id'', JStr ''s1'')])"
proof -
  have "outcome_payload (query_agent keep_options (scripted usd_eur_stream) usd_eur_request) =
     Some (''1 USD = 0.92 EUR'',
           JObj [(''duration_ms'', JInt 1200), (''total_cost_usd'', JFloat ''0.002''),
                 (''num_turns'', JInt 1), (''session_id'', JStr ''s1'')])"
    by (simp add: outcome_payload_def run_defs usd_eur_stream_def full_response_def
          or_empty_def usage_dict_def)
  then show ?thesis
    using buffered_outcome_matches_complete_event [of still_clock keep_options "scripted usd_eur_stream" usd_eur_request]
    by simp
qed

text \<open>
  C7. In streaming mode, when the configuration is built, the events after the two
  progress events read against the consumed messages in order: within a chunk each text
  fragment has its \<open>response\<close> event, carrying the fragment's text and \<open>partial\<close> true,
  and each tool invocation its \<open>tool_use\<close> event, carrying the tool's name and input, in
  the order of the blocks; the events of a chunk all come before those of the next
  message; and what is left after the last consumed message is the terminal event alone.
\<close>

theorem chunk_events_in_block_order:
  assumes "ClaudeAgentOptions (tools AGENT_CONFIG) (system_prompt AGENT_CONFIG)
             (permission_mode AGENT_CONFIG) (max_turns request) = Inr options"
  shows "messages_relayed (consumed (query (prompt request) options))
           (drop 2 (map emission_of
              (stream_agent_progress clock ClaudeAgentOptions query request))) =
         Some [last (map emission_of
              (stream_agent_progress clock ClaudeAgentOptions query request))]"
  using assms
  by (simp add: emissions_of_run stream_body_eq consumed_events_def messages_relayed_events)

theorem chunk_events_in_block_order_witness:
  "keep_options (tools AGENT_CONFIG) (system_prompt AGENT_CONFIG)
     (permission_mode AGENT_CONFIG) (max_turns usd_eur_request) =
     Inr (tools AGENT_CONFIG, system_prompt AGENT_CONFIG, permission_mode AGENT_CONFIG, 5) \<and>
   messages_relayed
     (consumed (scripted chatty_stream (prompt usd_eur_request)
        (tools AGENT_CONFIG, system_prompt AGENT_CONFIG, permission_mode AGENT_CONFIG, 5)))
     (drop 2 (map emission_of
        (stream_agent_progress still_clock keep_options (scripted chatty_stream)
           usd_eur_request))) =
     Some [last (map emission_of
        (stream_agent_progress still_clock keep_options (scripted chatty_stream)
           usd_eur_request))] \<and>
   map event_type
     (stream_agent_progress still_clock keep_options (scripted chatty_stream) usd_eur_request) =
     [''progress'', ''progress'', ''response'', ''tool_use'', ''response'', ''complete''] \<and>
   map (\<lambda>ev. dict_get (data ev) ''content'')
     (stream_agent_progress still_clock keep_options (scripted chatty_stream) usd_eur_request) =
     [None, None, Some (JStr ''Checking rates''), None, Some (JStr ''1 USD = 0.92 EUR''), None]"
proof -
  have h: "keep_options (tools AGENT_CONFIG) (system_prompt AGENT_CONFIG)
      (permission_mode AGENT_CONFIG) (max_turns usd_eur_request) =
      Inr (tools AGENT_CONFIG, system_prompt AGENT_CONFIG, permission_mode AGENT_CONFIG, 5)"
    by (simp add: keep_options_def usd_eur_request_def)
  have kinds: "map event_type
     (stream_agent_progress still_clock keep_options (scripted chatty_stream) usd_eur_request) =
     [''progress'', ''progress'', ''response'', ''tool_use'', ''response'', ''complete'']"
    by (simp add: run_defs chatty_stream_def create_event_def initializing_event_def
          processing_event_def response_event_def tool_use_event_def complete_event_def)
  have contents: "map (\<lambda>ev. dict_get (data ev) ''content'')
     (stream_agent_progress still_clock keep_options (scripted chatty_stream) usd_eur_request) =
     [None, None, Some (JStr ''Checking rates''), None, Some (JStr ''1 USD = 0.92 EUR''), None]"
    by (simp add: run_defs chatty_stream_def create_event_def initializing_event_def
          processing_event_def response_event_def tool_use_event_def complete_event_def)
  show ?thesis
    using h kinds contents
      chunk_events_in_block_order [where ClaudeAgentOptions = keep_options and query = "scripted chatty_stream"
            and request = usd_eur_request and clock = still_clock, OF h]
    by simp
qed

text \<open>
  C8. A buffered run that finishes without error returns the outcome with status
  \<^verbatim>\<open>success\<close>, the full response, the recorded usage summary or the empty mapping when
  no result summary arrived, and the persona's name and role. The full response is
  stated with \<open>newline_separated\<close>, as for C1.
\<close>

theorem buffered_success_outcome:
  assumes "ClaudeAgentOptions (tools AGENT_CONFIG) (system_prompt AGENT_CONFIG)
             (permission_mode AGENT_CONFIG) (max_turns request) = Inr options"
    and "stream_failure (query (prompt request) options) = None"
  shows "query_agent ClaudeAgentOptions query request =
     Inr \<lparr>status = ''success'',
          response =
            (if consumed_texts (query (prompt request) options) = []
             then ''No response received''
             else newline_separated (consumed_texts (query (prompt request) options))),
          usage =
            (case recorded_usage (consumed (query (prompt request) options)) of
               None \<Rightarrow> JObj []
             | Some u \<Rightarrow> u),
          agent_info =
            JObj [(''name'', JStr ''Currency Conversion Expert''),
                  (''role'', JStr ''Financial Data Analyst specializing in currency exchange rates'')]\<rparr>"
  using assms
  by (simp add: query_agent_eq full_response_separated or_empty_recorded agent_info_dict_def
        AGENT_CONFIG_def)

theorem buffered_success_outcome_witness:
  "keep_options (tools AGENT_CONFIG) (system_prompt AGENT_CONFIG)
     (permission_mode AGENT_CONFIG) (max_turns usd_eur_request) =
     Inr (tools AGENT_CONFIG, system_prompt AGENT_CONFIG, permission_mode AGENT_CONFIG, 5) \<and>
   stream_failure (scripted two_turn_stream (prompt usd_eur_request)
     (tools AGENT_CONFIG, system_prompt AGENT_CONFIG, permission_mode AGENT_CONFIG, 5)) = None \<and>
   query_agent keep_options (scripted two_turn_stream) usd_eur_request =
     Inr \<lparr>status = ''success'',
          response = ''Rates as of today\<newline>\<newline>EUR 0.92\<newline>GBP 0.79'',
          usage = JObj [(''duration_ms'', JInt 3100), (''total_cost_usd'', JNull),
                        (''num_turns'', JInt 2), (''session_id'', JStr ''s7'')],
          agent_info =
            JObj [(''name'', JStr ''Currency Conversion Expert''),
                  (''role'', JStr ''Financial Data Analyst specializing in currency exchange rates'')]\<rparr> \<and>
   stream_failure (scripted usd_eur_stream (prompt usd_eur_request)
     (tools AGENT_CONFIG, system_prompt AGENT_CONFIG, permission_mode AGENT_CONFIG, 5)) = None \<and>
   query_agent keep_options (scripted usd_eur_stream) usd_eur_request =
     Inr \<lparr>status = ''success'',
          response = ''1 USD = 0.92 EUR'',
          usage = JObj [(''duration_ms'', JInt 1200), (''total_cost_usd'', JFloat ''0.002''),
                        (''num_turns'', JInt 1), (''session_id'', JStr ''s1'')],
          agent_info =
            JObj [(''name'', JStr ''Currency Conversion Expert''),
                  (''role'', JStr ''Financial Data Analyst specializing in currency exchange rates'')]\<rparr> \<and>
   stream_failure (scripted StreamEnd (prompt usd_eur_request)
     (tools AGENT_CONFIG, system_prompt AGENT_CONFIG, permission_mode AGENT_CONFIG, 5)
       :: string agent_stream) = None \<and>
   query_agent keep_options (scripted (StreamEnd :: string agent_stream)) usd_eur_request =
     Inr \<lparr>status = ''success'', response = ''No response received'', usage = JObj [],
          agent_info =
            JObj [(''name'', JStr ''Currency Conversion Expert''),
                  (''role'', JStr ''Financial Data Analyst specializing in currency exchange rates'')]\<rparr>"
proof -
  have h1: "keep_options (tools AGENT_CONFIG) (system_prompt AGENT_CONFIG)
      (permission_mode AGENT_CONFIG) (max_turns usd_eur_request) =
      Inr (tools AGENT_CONFIG, system_prompt AGENT_CONFIG, permission_mode AGENT_CONFIG, 5)"
    by (simp add: keep_options_def usd_eur_request_def)
  have h2: "stream_failure (scripted two_turn_stream (prompt usd_eur_request)
     (tools AGENT_CONFIG, system_prompt AGENT_CONFIG, permission_mode AGENT_CONFIG, 5)) = None"
    by (simp add: scripted_def two_turn_stream_def)
  have h3: "stream_failure (scripted usd_eur_stream (prompt usd_eur_request)
     (tools AGENT_CONFIG, system_prompt AGENT_CONFIG, permission_mode AGENT_CONFIG, 5)) = None"
    by (simp add: scripted_def usd_eur_stream_def)
  have h4: "stream_failure (scripted StreamEnd (prompt usd_eur_request)
     (tools AGENT_CONFIG, system_prompt AGENT_CONFIG, permission_mode AGENT_CONFIG, 5)
       :: string agent_stream) = None"
    by (simp add: scripted_def)
  have two_turn: "query_agent keep_options (scripted two_turn_stream) usd_eur_request =
     Inr \<lparr>status = ''success'',
          response = ''Rates as of today\<newline>\<newline>EUR 0.92\<newline>GBP 0.79'',
          usage = JObj [(''duration_ms'', JInt 3100), (''total_cost_usd'', JNull),
                        (''num_turns'', JInt 2), (''session_id'', JStr ''s7'')],
          agent_info =
            JObj [(''name'', JStr ''Currency Conversion Expert''),
                  (''role'', JStr ''Financial Data Analyst specializing in currency exchange rates'')]\<rparr>"
    using buffered_success_outcome
            [where ClaudeAgentOptions = keep_options and query = "scripted two_turn_stream"
               and request = usd_eur_request, OF h1 h2]
    by (simp add: scripted_def two_turn_stream_def consumed_texts_def newline_separated_def)
  have usd_eur: "query_agent keep_options (scripted usd_eur_stream) usd_eur_request =
     Inr \<lparr>status = ''success'',
          response = ''1 USD = 0.92 EUR'',
          usage = JObj [(''duration_ms'', JInt 1200), (''total_cost_usd'', JFloat ''0.002''),
                        (''num_turns'', JInt 1), (''session_id'', JStr ''s1'')],
          agent_info =
            JObj [(''name'', JStr ''Currency Conversion Expert''),
                  (''role'', JStr ''Financial Data Analyst specializing in currency exchange rates'')]\<rparr>"
    using buffered_success_outcome
            [where ClaudeAgentOptions = keep_options and query = "scripted usd_eur_stream"
               and request = usd_eur_request, OF h1 h3]
    by (simp add: scripted_def usd_eur_stream_def consumed_texts_def newline_separated_def)
  have empty: "query_agent keep_options (scripted (StreamEnd :: string agent_stream))
       usd_eur_request =
     Inr \<lparr>status = ''success'', response = ''No response received'', usage = JObj [],
          agent_info =
            JObj [(''name'', JStr ''Currency Conversion Expert''),
                  (''role'', JStr ''Financial Data Analyst specializing in currency exchange rates'')]\<rparr>"
    using buffered_success_outcome
            [where ClaudeAgentOptions = keep_options
               and query = "scripted (StreamEnd :: string agent_stream)"
               and request = usd_eur_request, OF h1 h4]
    by (simp add: scripted_def consumed_texts_def)
  show ?thesis
    using h1 h2 h3 h4 two_turn usd_eur empty by simp
qed

text \<open>
  C9, as the code has it. A streaming run first emits the progress event announcing
  initialization, then builds the configuration, and only then emits the second progress
  event, announcing that processing has begun, before any event derived from the stream.
  So when building the configuration fails, the run is the initialization progress event
  followed by the error event.
\<close>

theorem initial_progress_precedes_configuration:
  "map emission_of
     (stream_agent_progress clock ClaudeAgentOptions
        (query :: string \<Rightarrow> 'o \<Rightarrow> 'f agent_stream) request) =
     (case ClaudeAgentOptions (tools AGENT_CONFIG) (system_prompt AGENT_CONFIG)
             (permission_mode AGENT_CONFIG) (max_turns request) of
        Inl e \<Rightarrow> [initializing_event, error_event e]
      | Inr options \<Rightarrow>
          [initializing_event, processing_event] @
          consumed_events (query (prompt request) options) @
          [case stream_failure (query (prompt request) options) of
             Some e \<Rightarrow> error_event e
           | None \<Rightarrow>
               complete_event
                 (full_response (consumed_texts (query (prompt request) options)))
                 (or_empty (recorded_usage (consumed (query (prompt request) options))))]) \<and>
   fst (initializing_event :: 'f emission) = ''progress'' \<and>
   dict_get (snd (initializing_event :: 'f emission)) ''status'' = Some (JStr ''initializing'') \<and>
   fst (processing_event :: 'f emission) = ''progress'' \<and>
   dict_get (snd (processing_event :: 'f emission)) ''status'' = Some (JStr ''processing'')"
  by (simp add: emissions_of_run stream_body_eq initializing_event_def processing_event_def
        split: sum.splits)

theorem initial_progress_precedes_configuration_witness:
  "map emission_of
     (stream_agent_progress still_clock refuse_options (scripted usd_eur_stream)
        usd_eur_request) =
     [initializing_event, error_event ''invalid options''] \<and>
   map emission_of
     (stream_agent_progress still_clock keep_options (scripted usd_eur_stream)
        usd_eur_request) =
     [initializing_event, processing_event, response_event ''1 USD = 0.92 EUR'',
      complete_event ''1 USD = 0.92 EUR''
        (JObj [(''duration_ms'', JInt 1200), (''total_cost_usd'', JFloat ''0.002''),
               (''num_turns'', JInt 1), (''session_id'', JStr ''s1'')])]"
  using initial_progress_precedes_configuration
          [of still_clock refuse_options "scripted usd_eur_stream" usd_eur_request]
        initial_progress_precedes_configuration
          [of still_clock keep_options "scripted usd_eur_stream" usd_eur_request]
  by (simp add: refuse_options_def keep_options_def scripted_def usd_eur_stream_def
        consumed_events_def consumed_texts_def full_response_def or_empty_def)

text \<open>
  The order the specification gives, configuration first and no progress event before
  the error of a failed configuration, does not hold: with a constructor that refuses
  its arguments, a progress event precedes the error event.
\<close>

theorem progress_before_configuration_error:
  "refuse_options (tools AGENT_CONFIG) (system_prompt AGENT_CONFIG)
     (permission_mode AGENT_CONFIG) (max_turns usd_eur_request) = Inl ''invalid options'' \<and>
   map event_type
     (stream_agent_progress still_clock refuse_options (scripted usd_eur_stream)
        usd_eur_request) = [''progress'', ''error'']"
  by (simp add: run_defs create_event_def initializing_event_def error_event_def)

text \<open>
  C10. In both modes a block of a chunk that is neither a text fragment nor a tool
  invocation is skipped without trace: the run on a stream is the run on the same stream
  with all such blocks removed, event for event and field for field.
\<close>

theorem unhandled_blocks_are_skipped:
  "stream_agent_progress clock ClaudeAgentOptions
     (\<lambda>prompt_text options. strip_stream (query prompt_text options)) request =
     stream_agent_progress clock ClaudeAgentOptions query request \<and>
   query_agent ClaudeAgentOptions
     (\<lambda>prompt_text options. strip_stream (query prompt_text options)) request =
     query_agent ClaudeAgentOptions query request"
  by (simp add: stream_agent_progress_def stream_body_eq query_agent_eq consumed_texts_strip
        consumed_events_strip stream_failure_strip recorded_usage_strip
        cong: sum.case_cong option.case_cong)

theorem unhandled_blocks_are_skipped_witness:
  "strip_stream chatty_stream =
     Yield (AssistantMessage
              [TextBlock ''Checking rates'',
               ToolUseBlock ''WebSearch'' (JObj [(''query'', JStr ''USD EUR'')])])
       (Yield OtherMessage
          (Yield (AssistantMessage [TextBlock ''1 USD = 0.92 EUR''])
             (Yield (ResultMessage 1200 (Some ''0.002'') 1 ''s1'') StreamEnd))) \<and>
   stream_agent_progress still_clock keep_options
     (scripted (strip_stream chatty_stream)) usd_eur_request =
     stream_agent_progress still_clock keep_options (scripted chatty_stream) usd_eur_request \<and>
   query_agent keep_options (scripted (strip_stream chatty_stream)) usd_eur_request =
     query_agent keep_options (scripted chatty_stream) usd_eur_request"
proof -
  have same: "(\<lambda>prompt_text options. strip_stream (scripted chatty_stream prompt_text options)) =
      scripted (strip_stream chatty_stream)"
    by (simp add: scripted_def fun_eq_iff)
  have stripped: "strip_stream chatty_stream =
     Yield (AssistantMessage
              [TextBlock ''Checking rates'',
               ToolUseBlock ''WebSearch'' (JObj [(''query'', JStr ''USD EUR'')])])
       (Yield OtherMessage
          (Yield (AssistantMessage [TextBlock ''1 USD = 0.92 EUR''])
             (Yield (ResultMessage 1200 (Some ''0.002'') 1 ''s1'') StreamEnd)))"
    by (simp add: chatty_stream_def)
  show ?thesis
    using unhandled_blocks_are_skipped
            [of still_clock keep_options "scripted chatty_stream" usd_eur_request]
          stripped
    by (simp only: same simp_thms)
qed

end
